theory Spec2Isabelle
  imports Main
begin

section \<open>Bytes\<close>

text \<open>
  A Go string is a sequence of bytes; it is modelled as a \<open>string\<close> (a list of 8-bit
  characters), and \<open>of_char\<close> reads a byte as a number.
\<close>

abbreviation ESC :: char where "ESC \<equiv> CHR 0x1B"
abbreviation backslash :: char where "backslash \<equiv> CHR 0x5C"
abbreviation dquote :: char where "dquote \<equiv> CHR 0x22"
abbreviation newline :: char where "newline \<equiv> CHR 0x0A"
abbreviation carriage_return :: char where "carriage_return \<equiv> CHR 0x0D"

section \<open>The standard library functions the logger calls\<close>

subsection \<open>strings.ToLower\<close>

text \<open>
  \<open>strings.ToLower\<close> first scans the string: if every byte is ASCII it maps the bytes
  \<open>A..Z\<close> to \<open>a..z\<close> itself (or returns the string as it is when there is no upper-case
  byte); at the first non-ASCII byte it gives up and maps \<open>unicode.ToLower\<close> over the runes.
  That Unicode case mapping is a parameter of the model.
\<close>

fun scan_ascii :: "string \<Rightarrow> bool \<Rightarrow> bool \<times> bool" where
  "scan_ascii [] hasUpper = (True, hasUpper)"
| "scan_ascii (c # cs) hasUpper =
     (if (0x80::nat) \<le> of_char c then (False, hasUpper)
      else scan_ascii cs (hasUpper \<or> ((0x41::nat) \<le> of_char c \<and> of_char c \<le> (0x5A::nat))))"

definition lowerASCII :: "char \<Rightarrow> char" where
  "lowerASCII c =
     (if (0x41::nat) \<le> of_char c \<and> of_char c \<le> (0x5A::nat)
      then char_of (of_char c + (0x20::nat)) else c)"

definition ToLower :: "(string \<Rightarrow> string) \<Rightarrow> string \<Rightarrow> string" where
  "ToLower unicode_lower s =
     (case scan_ascii s False of
        (isASCII, hasUpper) \<Rightarrow>
          if isASCII then (if \<not> hasUpper then s else map lowerASCII s)
          else unicode_lower s)"

subsection \<open>utf8.DecodeRuneInString\<close>

definition RuneError :: nat where
  "RuneError = 0xFFFD"

text \<open>
  The table \<open>first\<close> of package \<open>unicode/utf8\<close>, read together with \<open>acceptRanges\<close>: for a
  leading byte, the length of the encoding and the range the second byte must lie in;
  \<open>None\<close> for a byte that cannot start an encoding.
\<close>

definition first_byte :: "nat \<Rightarrow> (nat \<times> nat \<times> nat) option" where
  "first_byte b =
     (if 0xC2 \<le> b \<and> b \<le> 0xDF then Some (2, 0x80, 0xBF)
      else if b = 0xE0 then Some (3, 0xA0, 0xBF)
      else if 0xE1 \<le> b \<and> b \<le> 0xEC then Some (3, 0x80, 0xBF)
      else if b = 0xED then Some (3, 0x80, 0x9F)
      else if 0xEE \<le> b \<and> b \<le> 0xEF then Some (3, 0x80, 0xBF)
      else if b = 0xF0 then Some (4, 0x90, 0xBF)
      else if 0xF1 \<le> b \<and> b \<le> 0xF3 then Some (4, 0x80, 0xBF)
      else if b = 0xF4 then Some (4, 0x80, 0x8F)
      else None)"

text \<open>
  The result is the rune and the number of bytes it takes; \<open>(RuneError, 1)\<close> reports a
  byte that is not part of a valid encoding. The masks and shifts of the source are
  written as \<open>mod\<close> and multiplication: the shifted parts have no bit in common, so
  their bitwise or is their sum.
\<close>

definition DecodeRuneInString :: "string \<Rightarrow> nat \<times> nat" where
  "DecodeRuneInString s =
     (if length s < 1 then (RuneError, 0)
      else let s0 = of_char (s ! 0) in
        if s0 < 0x80 then (s0, 1)
        else case first_byte s0 of
          None \<Rightarrow> (RuneError, 1)
        | Some (sz, lo, hi) \<Rightarrow>
            if length s < sz then (RuneError, 1)
            else let s1 = of_char (s ! 1) in
              if s1 < lo \<or> hi < s1 then (RuneError, 1)
              else if sz \<le> 2 then ((s0 mod 32) * 64 + s1 mod 64, 2)
              else let s2 = of_char (s ! 2) in
                if s2 < 0x80 \<or> 0xBF < s2 then (RuneError, 1)
                else if sz \<le> 3
                  then ((s0 mod 16) * 4096 + (s1 mod 64) * 64 + s2 mod 64, 3)
                else let s3 = of_char (s ! 3) in
                  if s3 < 0x80 \<or> 0xBF < s3 then (RuneError, 1)
                  else ((s0 mod 8) * 262144 + (s1 mod 64) * 4096
                          + (s2 mod 64) * 64 + s3 mod 64, 4))"

text \<open>
  A string is valid UTF-8 when decoding it rune by rune never reports an encoding error
  (what \<open>utf8.ValidString\<close> decides).
\<close>

function valid_utf8 :: "string \<Rightarrow> bool" where
  "valid_utf8 [] = True"
| "valid_utf8 (c # cs) =
     (if (of_char c :: nat) < 0x80 then valid_utf8 cs
      else case DecodeRuneInString (take 4 (c # cs)) of (r, sz) \<Rightarrow>
        if r = RuneError \<and> sz = 1 then False
        else valid_utf8 (drop sz (c # cs)))"
  by pat_completeness auto
termination
proof (relation "measure length", goal_cases)
  case 1
  show ?case by simp
next
  case (2 c cs)
  show ?case by simp
next
  case (3 c cs r sz)
  have "0 < snd (DecodeRuneInString (take 4 (c # cs)))"
    by (simp add: DecodeRuneInString_def Let_def split: option.splits prod.splits)
  with 3(2) have "0 < sz" by (metis snd_conv)
  then show ?case by simp
qed

subsection \<open>json.Marshal on strings and string slices\<close>

text \<open>
  \<open>json.Marshal\<close> writes a string between double quotes. With HTML escaping on (as
  \<open>Marshal\<close> has it) a byte below \<open>0x80\<close> is copied when \<open>htmlSafeSet\<close> holds for it and
  escaped otherwise; a byte that is not valid UTF-8 becomes the six characters
  of the escape of U+FFFD; U+2028 and U+2029 are escaped; every other rune is copied. The short
  escapes for backspace and form feed are those of Go 1.22 and later (earlier releases
  write the six-character form for these two bytes).
\<close>

datatype json_error = UnsupportedTypeError

definition htmlSafeSet :: "nat \<Rightarrow> bool" where
  "htmlSafeSet b =
     (0x20 \<le> b \<and> b \<le> 0x7F \<and> b \<noteq> 0x22 \<and> b \<noteq> 0x26 \<and> b \<noteq> 0x3C \<and> b \<noteq> 0x3E \<and> b \<noteq> 0x5C)"

definition hex :: "nat \<Rightarrow> char" where
  "hex n = ''0123456789abcdef'' ! n"

definition escapeByte :: "char \<Rightarrow> string" where
  "escapeByte c = (let b = of_char c :: nat in
     if htmlSafeSet b then [c]
     else if c = backslash \<or> c = dquote then [backslash, c]
     else if b = 0x08 then [backslash, CHR ''b'']
     else if b = 0x0C then [backslash, CHR ''f'']
     else if b = 0x0A then [backslash, CHR ''n'']
     else if b = 0x0D then [backslash, CHR ''r'']
     else if b = 0x09 then [backslash, CHR ''t'']
     else [backslash, CHR ''u'', CHR ''0'', CHR ''0'', hex (b div 16), hex (b mod 16)])"

function appendBody :: "string \<Rightarrow> string" where
  "appendBody [] = []"
| "appendBody (c # cs) =
     (if (of_char c :: nat) < 0x80 then escapeByte c @ appendBody cs
      else case DecodeRuneInString (take 4 (c # cs)) of (r, sz) \<Rightarrow>
        if r = RuneError \<and> sz = 1 then backslash # ''ufffd'' @ appendBody cs
        else if r = 0x2028 \<or> r = 0x2029
          then backslash # ''u202'' @ [hex (r mod 16)] @ appendBody (drop sz (c # cs))
        else take sz (c # cs) @ appendBody (drop sz (c # cs)))"
  by pat_completeness auto
termination
proof (relation "measure length", goal_cases)
  case 1
  show ?case by simp
next
  case (2 c cs)
  show ?case by simp
next
  case (3 c cs r sz)
  show ?case by simp
next
  case (4 c cs r sz)
  have "0 < snd (DecodeRuneInString (take 4 (c # cs)))"
    by (simp add: DecodeRuneInString_def Let_def split: option.splits prod.splits)
  with 4(2) have "0 < sz" by (metis snd_conv)
  then show ?case by simp
next
  case (5 c cs r sz)
  have "0 < snd (DecodeRuneInString (take 4 (c # cs)))"
    by (simp add: DecodeRuneInString_def Let_def split: option.splits prod.splits)
  with 5(2) have "0 < sz" by (metis snd_conv)
  then show ?case by simp
qed

definition appendString :: "string \<Rightarrow> string" where
  "appendString s = dquote # appendBody s @ [dquote]"

text \<open>The elements of an array, a comma before every element but the first.\<close>

fun arrayElems :: "string list \<Rightarrow> string" where
  "arrayElems [] = []"
| "arrayElems [x] = appendString x"
| "arrayElems (x # y # ys) = appendString x @ CHR '','' # arrayElems (y # ys)"

text \<open>
  \<open>Marshal\<close> returns the bytes and an error. For a string and for a slice of strings no
  error arises; a nil slice (\<open>None\<close>) is written \<open>null\<close>.
\<close>

definition Marshal_string :: "string \<Rightarrow> json_error + string" where
  "Marshal_string s = Inr (appendString s)"

definition Marshal_strings :: "string list option \<Rightarrow> json_error + string" where
  "Marshal_strings v =
     (case v of None \<Rightarrow> Inr ''null'' | Some xs \<Rightarrow> Inr (CHR ''['' # arrayElems xs @ '']''))"

subsection \<open>fmt.Sprint\<close>

text \<open>
  An operand of a print call is a string, or a value of another kind given by the text
  its default format produces. \<open>Sprint\<close> puts a space between two operands when neither
  is a string.
\<close>

datatype arg = Str string | Other string

fun isString :: "arg \<Rightarrow> bool" where
  "isString (Str s) = True"
| "isString (Other t) = False"

fun printArg :: "arg \<Rightarrow> string" where
  "printArg (Str s) = s"
| "printArg (Other t) = t"

fun doPrint :: "nat \<Rightarrow> bool \<Rightarrow> arg list \<Rightarrow> string" where
  "doPrint argNum prevString [] = []"
| "doPrint argNum prevString (a # as) =
     (if 0 < argNum \<and> \<not> isString a \<and> \<not> prevString then '' '' else [])
       @ printArg a @ doPrint (Suc argNum) (isString a) as"

definition Sprint :: "arg list \<Rightarrow> string" where
  "Sprint v = doPrint 0 False v"

subsection \<open>bufio.Scanner with the default split function ScanLines\<close>

text \<open>
  One call of \<open>Scan\<close> on the input that is still unread. The scanner's buffer grows up to
  \<open>MaxScanTokenSize\<close> bytes: a line is found when its newline lies within that many
  unread bytes; unread input that fills the buffer without a newline is
  \<open>ErrTooLong\<close>; a shorter rest without a newline is the last line. A line loses one
  trailing carriage return.
\<close>

datatype scan_error = ErrTooLong

datatype scan_result = Token string string | Stop "scan_error option"

definition MaxScanTokenSize :: nat where
  "MaxScanTokenSize = 64 * 1024"

fun IndexByte :: "string \<Rightarrow> char \<Rightarrow> nat option" where
  "IndexByte [] c = None"
| "IndexByte (x # xs) c = (if x = c then Some 0 else map_option Suc (IndexByte xs c))"

definition dropCR :: "string \<Rightarrow> string" where
  "dropCR data = (if data \<noteq> [] \<and> last data = carriage_return then butlast data else data)"

definition Scan :: "string \<Rightarrow> scan_result" where
  "Scan unread =
     (if unread = [] then Stop None
      else case IndexByte (take MaxScanTokenSize unread) newline of
        Some i \<Rightarrow> Token (dropCR (take i unread)) (drop (i + 1) unread)
      | None \<Rightarrow>
          if length unread < MaxScanTokenSize then Token (dropCR unread) []
          else Stop (Some ErrTooLong))"

section \<open>The logger\<close>

subsection \<open>Data\<close>

type_synonym Level = string
type_synonym Mode = string

definition FatalLevel :: Level where "FatalLevel = ''fatal''"
definition ErrorLevel :: Level where "ErrorLevel = ''error''"
definition WarnLevel :: Level where "WarnLevel = ''warn''"
definition InfoLevel :: Level where "InfoLevel = ''info''"
definition VerboseLevel :: Level where "VerboseLevel = ''verbose''"
definition DebugLevel :: Level where "DebugLevel = ''debug''"
definition SpamLevel :: Level where "SpamLevel = ''spam''"
definition DefaultLevel :: Level where "DefaultLevel = InfoLevel"
definition LineMode :: Mode where "LineMode = ''line''"
definition RawMode :: Mode where "RawMode = ''raw''"
definition DefaultMode :: Mode where "DefaultMode = LineMode"

text \<open>
  An \<open>io.Writer\<close> is known by its identity; \<open>None\<close> is the nil interface value. A slice
  of tags is \<open>None\<close> when it is nil. The zero value of a string is the empty string.
\<close>

datatype writer = Stdout | Stderr | Writer nat

record logger =
  "output" :: "writer option"
  tags :: "string list option"
  level :: Level
  linePrefix :: string
  mode :: Mode

text \<open>
  Loggers are handled through pointers. The store holds the allocated \<open>logger\<close> structs,
  a reference is an index into it, and a reference outside the store stands for a nil
  pointer. \<open>written\<close> lists the calls of \<open>Write\<close> made on writers, oldest first: the writer
  and the bytes of the call.
\<close>

type_synonym ref = nat

record world =
  heap :: "logger list"
  written :: "(writer \<times> string) list"

datatype panic = NilPointerDereference

definition deref :: "world \<Rightarrow> ref \<Rightarrow> logger option" where
  "deref w r = (if r < length (heap w) then Some (heap w ! r) else None)"

definition alloc :: "world \<Rightarrow> logger \<Rightarrow> world \<times> ref" where
  "alloc w x = (w\<lparr>heap := heap w @ [x]\<rparr>, length (heap w))"

definition store :: "world \<Rightarrow> ref \<Rightarrow> logger \<Rightarrow> world" where
  "store w r x = w\<lparr>heap := (heap w)[r := x]\<rparr>"

definition chain :: "panic + 'a \<Rightarrow> ('a \<Rightarrow> panic + 'b) \<Rightarrow> panic + 'b" where
  "chain m f = (case m of Inl p \<Rightarrow> Inl p | Inr x \<Rightarrow> f x)"

subsection \<open>ParseLevel\<close>

definition levelsMap :: "string \<rightharpoonup> Level" where
  "levelsMap = map_of
     [(FatalLevel, FatalLevel), (ErrorLevel, ErrorLevel), (WarnLevel, WarnLevel),
      (InfoLevel, InfoLevel), (VerboseLevel, VerboseLevel), (DebugLevel, DebugLevel),
      (SpamLevel, SpamLevel)]"

definition ParseLevel :: "(string \<Rightarrow> string) \<Rightarrow> string \<Rightarrow> Level \<times> bool" where
  "ParseLevel unicode_lower s =
     (case levelsMap (ToLower unicode_lower s) of
        None \<Rightarrow> (DefaultLevel, False)
      | Some lv \<Rightarrow> (lv, True))"

subsection \<open>Construction and the line prefix\<close>

definition updateLinePrefix :: "logger \<Rightarrow> logger" where
  "updateLinePrefix l =
     (let lv = (case Marshal_string (level l) of
                  Inl err \<Rightarrow> dquote # DefaultLevel @ [dquote] | Inr b \<Rightarrow> b);
          md = (case Marshal_string (mode l) of
                  Inl err \<Rightarrow> dquote # DefaultMode @ [dquote] | Inr b \<Rightarrow> b);
          tg = (case Marshal_strings (tags l) of
                  Inl err \<Rightarrow> ''[]'' | Inr b \<Rightarrow> if b = ''null'' then ''[]'' else b)
      in l\<lparr>linePrefix :=
             ESC # ''_klio_log_level '' @ lv @ [ESC, backslash]
               @ ESC # ''_klio_tags '' @ tg @ [ESC, backslash]
               @ ESC # ''_klio_mode '' @ md @ [ESC, backslash]\<rparr>)"

definition New :: "world \<Rightarrow> writer option \<Rightarrow> world \<times> ref" where
  "New w out =
     alloc w (updateLinePrefix
       \<lparr>output = out, tags = Some [], level = DefaultLevel, linePrefix = [],
        mode = DefaultMode\<rparr>)"

definition NewMutable :: "world \<Rightarrow> writer option \<Rightarrow> world \<times> ref" where
  "NewMutable w out =
     alloc w (updateLinePrefix
       \<lparr>output = out, tags = Some [], level = DefaultLevel, linePrefix = [],
        mode = []\<rparr>)"

subsection \<open>Accessors\<close>

definition Tags :: "world \<Rightarrow> ref \<Rightarrow> panic + string list" where
  "Tags w l =
     (case deref w l of
        None \<Rightarrow> Inl NilPointerDereference
      | Some x \<Rightarrow> Inr (case tags x of None \<Rightarrow> [] | Some ts \<Rightarrow> ts))"

definition Level :: "world \<Rightarrow> ref \<Rightarrow> panic + Level" where
  "Level w l =
     (case deref w l of None \<Rightarrow> Inl NilPointerDereference | Some x \<Rightarrow> Inr (level x))"

definition Mode :: "world \<Rightarrow> ref \<Rightarrow> panic + Mode" where
  "Mode w l =
     (case deref w l of None \<Rightarrow> Inl NilPointerDereference | Some x \<Rightarrow> Inr (mode x))"

definition Output :: "world \<Rightarrow> ref \<Rightarrow> panic + writer option" where
  "Output w l =
     (case deref w l of None \<Rightarrow> Inl NilPointerDereference | Some x \<Rightarrow> Inr (output x))"

subsection \<open>Derivation: a copy of the struct with one field replaced\<close>

text \<open>
  A variadic call with the tags listed one by one hands the method a nil slice when
  there is none, and the slice of the arguments otherwise.
\<close>

definition variadic :: "string list \<Rightarrow> string list option" where
  "variadic xs = (if xs = [] then None else Some xs)"

definition WithLevel :: "world \<Rightarrow> ref \<Rightarrow> Level \<Rightarrow> panic + world \<times> ref" where
  "WithLevel w l lv =
     (case deref w l of
        None \<Rightarrow> Inl NilPointerDereference
      | Some n \<Rightarrow> Inr (alloc w (updateLinePrefix (n\<lparr>level := lv\<rparr>))))"

definition WithMode :: "world \<Rightarrow> ref \<Rightarrow> Mode \<Rightarrow> panic + world \<times> ref" where
  "WithMode w l md =
     (case deref w l of
        None \<Rightarrow> Inl NilPointerDereference
      | Some n \<Rightarrow> Inr (alloc w (updateLinePrefix (n\<lparr>mode := md\<rparr>))))"

definition WithTags :: "world \<Rightarrow> ref \<Rightarrow> string list option \<Rightarrow> panic + world \<times> ref" where
  "WithTags w l tg =
     (case deref w l of
        None \<Rightarrow> Inl NilPointerDereference
      | Some n \<Rightarrow> Inr (alloc w (updateLinePrefix (n\<lparr>tags := tg\<rparr>))))"

definition WithOutput :: "world \<Rightarrow> ref \<Rightarrow> writer option \<Rightarrow> panic + world \<times> ref" where
  "WithOutput w l out =
     (case deref w l of
        None \<Rightarrow> Inl NilPointerDereference
      | Some n \<Rightarrow> Inr (alloc w (n\<lparr>output := out\<rparr>)))"

subsection \<open>Printing\<close>

definition Print :: "world \<Rightarrow> ref \<Rightarrow> arg list \<Rightarrow> panic + world \<times> ref" where
  "Print w l v =
     (case deref w l of
        None \<Rightarrow> Inl NilPointerDereference
      | Some x \<Rightarrow>
          let line = linePrefix x @ Sprint v @ ESC # ''_klio_reset'' @ [ESC, backslash, newline]
          in case output x of
               None \<Rightarrow> Inl NilPointerDereference
             | Some out \<Rightarrow> Inr (w\<lparr>written := written w @ [(out, line)]\<rparr>, l))"

text \<open>\<open>fmt.Sprintf\<close> is a parameter: the text it makes of a format and its operands.\<close>

definition Printf ::
  "(string \<Rightarrow> arg list \<Rightarrow> string) \<Rightarrow> world \<Rightarrow> ref \<Rightarrow> string \<Rightarrow> arg list \<Rightarrow> panic + world \<times> ref"
where
  "Printf Sprintf w l format v = Print w l [Str (Sprintf format v)]"

text \<open>The loop of \<open>Write\<close>: print every line the scanner finds, until it stops.\<close>

function Write_loop :: "world \<Rightarrow> ref \<Rightarrow> string \<Rightarrow> panic + world \<times> scan_error option" where
  "Write_loop w l unread =
     (case Scan unread of
        Stop err \<Rightarrow> Inr (w, err)
      | Token line rest \<Rightarrow>
          (case Print w l [Str line] of
             Inl p \<Rightarrow> Inl p
           | Inr (w', l') \<Rightarrow> Write_loop w' l rest))"
  by pat_completeness auto
termination
proof (relation "measure (\<lambda>(w, l, unread). length unread)", goal_cases)
  case 1
  show ?case by simp
next
  case (2 w l unread line rest x w' l')
  from 2(1) have "length rest < length unread"
    by (auto simp: Scan_def split: if_splits option.splits)
  then show ?case by simp
qed

declare Write_loop.simps [simp del]

definition Write :: "world \<Rightarrow> ref \<Rightarrow> string \<Rightarrow> panic + world \<times> nat \<times> scan_error option" where
  "Write w l p =
     (case Write_loop w l p of
        Inl e \<Rightarrow> Inl e
      | Inr (w', err) \<Rightarrow>
          (case err of
             Some e \<Rightarrow> Inr (w', 0, Some e)
           | None \<Rightarrow> Inr (w', length p, None)))"

subsection \<open>The mutable logger\<close>

definition SetTags :: "world \<Rightarrow> ref \<Rightarrow> string list option \<Rightarrow> panic + world" where
  "SetTags w l tg =
     (case deref w l of
        None \<Rightarrow> Inl NilPointerDereference
      | Some x \<Rightarrow> Inr (store w l (updateLinePrefix (x\<lparr>tags := tg\<rparr>))))"

definition SetLevel :: "world \<Rightarrow> ref \<Rightarrow> Level \<Rightarrow> panic + world" where
  "SetLevel w l lv =
     (case deref w l of
        None \<Rightarrow> Inl NilPointerDereference
      | Some x \<Rightarrow> Inr (store w l (updateLinePrefix (x\<lparr>level := lv\<rparr>))))"

definition SetOutput :: "world \<Rightarrow> ref \<Rightarrow> writer option \<Rightarrow> panic + world" where
  "SetOutput w l out =
     (case deref w l of
        None \<Rightarrow> Inl NilPointerDereference
      | Some x \<Rightarrow> Inr (store w l (x\<lparr>output := out\<rparr>)))"

definition SetMode :: "world \<Rightarrow> ref \<Rightarrow> Mode \<Rightarrow> panic + world" where
  "SetMode w l md =
     (case deref w l of
        None \<Rightarrow> Inl NilPointerDereference
      | Some x \<Rightarrow> Inr (store w l (updateLinePrefix (x\<lparr>mode := md\<rparr>))))"

subsection \<open>The package variables and their initialisation\<close>

text \<open>
  The two global loggers are the first two structs allocated when the package is
  initialised; \<open>init\<close> then sets the level of the error logger.
\<close>

definition standardLogger :: ref where "standardLogger = 0"
definition errorLogger :: ref where "errorLogger = 1"

definition package_init :: "panic + world" where
  "package_init =
     (case NewMutable \<lparr>heap = [], written = []\<rparr> (Some Stdout) of
        (w1, std) \<Rightarrow>
          (case NewMutable w1 (Some Stderr) of
             (w2, err) \<Rightarrow> SetLevel w2 err ErrorLevel))"

definition StandardLogger :: ref where "StandardLogger = standardLogger"
definition ErrorLogger :: ref where "ErrorLogger = errorLogger"

subsection \<open>The level-named functions\<close>

definition Spam :: "world \<Rightarrow> arg list \<Rightarrow> panic + world" where
  "Spam w v = chain (chain (WithLevel w standardLogger SpamLevel) (\<lambda>(w', n). Print w' n v))
                (\<lambda>(w', n). Inr w')"

definition Debug :: "world \<Rightarrow> arg list \<Rightarrow> panic + world" where
  "Debug w v = chain (chain (WithLevel w standardLogger DebugLevel) (\<lambda>(w', n). Print w' n v))
                 (\<lambda>(w', n). Inr w')"

definition Verbose :: "world \<Rightarrow> arg list \<Rightarrow> panic + world" where
  "Verbose w v = chain (chain (WithLevel w standardLogger VerboseLevel) (\<lambda>(w', n). Print w' n v))
                   (\<lambda>(w', n). Inr w')"

definition Info :: "world \<Rightarrow> arg list \<Rightarrow> panic + world" where
  "Info w v = chain (chain (WithLevel w standardLogger InfoLevel) (\<lambda>(w', n). Print w' n v))
                (\<lambda>(w', n). Inr w')"

definition Warn :: "world \<Rightarrow> arg list \<Rightarrow> panic + world" where
  "Warn w v = chain (chain (WithLevel w standardLogger WarnLevel) (\<lambda>(w', n). Print w' n v))
                (\<lambda>(w', n). Inr w')"

definition Error :: "world \<Rightarrow> arg list \<Rightarrow> panic + world" where
  "Error w v = chain (chain (WithLevel w standardLogger ErrorLevel) (\<lambda>(w', n). Print w' n v))
                 (\<lambda>(w', n). Inr w')"

definition Fatal :: "world \<Rightarrow> arg list \<Rightarrow> panic + world" where
  "Fatal w v = chain (chain (WithLevel w standardLogger FatalLevel) (\<lambda>(w', n). Print w' n v))
                 (\<lambda>(w', n). Inr w')"

definition Spamf ::
  "(string \<Rightarrow> arg list \<Rightarrow> string) \<Rightarrow> world \<Rightarrow> string \<Rightarrow> arg list \<Rightarrow> panic + world" where
  "Spamf Sprintf w format v =
     chain (chain (WithLevel w standardLogger SpamLevel) (\<lambda>(w', n). Printf Sprintf w' n format v))
       (\<lambda>(w', n). Inr w')"

definition Debugf ::
  "(string \<Rightarrow> arg list \<Rightarrow> string) \<Rightarrow> world \<Rightarrow> string \<Rightarrow> arg list \<Rightarrow> panic + world" where
  "Debugf Sprintf w format v =
     chain (chain (WithLevel w standardLogger DebugLevel) (\<lambda>(w', n). Printf Sprintf w' n format v))
       (\<lambda>(w', n). Inr w')"

definition Verbosef ::
  "(string \<Rightarrow> arg list \<Rightarrow> string) \<Rightarrow> world \<Rightarrow> string \<Rightarrow> arg list \<Rightarrow> panic + world" where
  "Verbosef Sprintf w format v =
     chain (chain (WithLevel w standardLogger VerboseLevel) (\<lambda>(w', n). Printf Sprintf w' n format v))
       (\<lambda>(w', n). Inr w')"

definition Infof ::
  "(string \<Rightarrow> arg list \<Rightarrow> string) \<Rightarrow> world \<Rightarrow> string \<Rightarrow> arg list \<Rightarrow> panic + world" where
  "Infof Sprintf w format v =
     chain (chain (WithLevel w standardLogger InfoLevel) (\<lambda>(w', n). Printf Sprintf w' n format v))
       (\<lambda>(w', n). Inr w')"

definition Warnf ::
  "(string \<Rightarrow> arg list \<Rightarrow> string) \<Rightarrow> world \<Rightarrow> string \<Rightarrow> arg list \<Rightarrow> panic + world" where
  "Warnf Sprintf w format v =
     chain (chain (WithLevel w standardLogger WarnLevel) (\<lambda>(w', n). Printf Sprintf w' n format v))
       (\<lambda>(w', n). Inr w')"

definition Errorf ::
  "(string \<Rightarrow> arg list \<Rightarrow> string) \<Rightarrow> world \<Rightarrow> string \<Rightarrow> arg list \<Rightarrow> panic + world" where
  "Errorf Sprintf w format v =
     chain (chain (WithLevel w standardLogger ErrorLevel) (\<lambda>(w', n). Printf Sprintf w' n format v))
       (\<lambda>(w', n). Inr w')"

definition Fatalf ::
  "(string \<Rightarrow> arg list \<Rightarrow> string) \<Rightarrow> world \<Rightarrow> string \<Rightarrow> arg list \<Rightarrow> panic + world" where
  "Fatalf Sprintf w format v =
     chain (chain (WithLevel w standardLogger FatalLevel) (\<lambda>(w', n). Printf Sprintf w' n format v))
       (\<lambda>(w', n). Inr w')"

section \<open>Programs over the interface\<close>

text \<open>
  A client of the package is a sequence of calls. A call that panics ends the program.
\<close>

datatype call =
    Call_New "writer option"
  | Call_NewMutable "writer option"
  | Call_WithLevel ref Level
  | Call_WithMode ref Mode
  | Call_WithTags ref "string list option"
  | Call_WithOutput ref "writer option"
  | Call_SetLevel ref Level
  | Call_SetMode ref Mode
  | Call_SetTags ref "string list option"
  | Call_SetOutput ref "writer option"
  | Call_Print ref "arg list"
  | Call_Printf ref string "arg list"
  | Call_Write ref string
  | Call_Spam "arg list"
  | Call_Debug "arg list"
  | Call_Verbose "arg list"
  | Call_Info "arg list"
  | Call_Warn "arg list"
  | Call_Error "arg list"
  | Call_Fatal "arg list"
  | Call_Spamf string "arg list"
  | Call_Debugf string "arg list"
  | Call_Verbosef string "arg list"
  | Call_Infof string "arg list"
  | Call_Warnf string "arg list"
  | Call_Errorf string "arg list"
  | Call_Fatalf string "arg list"

fun exec :: "(string \<Rightarrow> arg list \<Rightarrow> string) \<Rightarrow> world \<Rightarrow> call \<Rightarrow> panic + world" where
  "exec S w (Call_New out) = Inr (fst (New w out))"
| "exec S w (Call_NewMutable out) = Inr (fst (NewMutable w out))"
| "exec S w (Call_WithLevel l lv) = chain (WithLevel w l lv) (\<lambda>(w', n). Inr w')"
| "exec S w (Call_WithMode l md) = chain (WithMode w l md) (\<lambda>(w', n). Inr w')"
| "exec S w (Call_WithTags l tg) = chain (WithTags w l tg) (\<lambda>(w', n). Inr w')"
| "exec S w (Call_WithOutput l out) = chain (WithOutput w l out) (\<lambda>(w', n). Inr w')"
| "exec S w (Call_SetLevel l lv) = SetLevel w l lv"
| "exec S w (Call_SetMode l md) = SetMode w l md"
| "exec S w (Call_SetTags l tg) = SetTags w l tg"
| "exec S w (Call_SetOutput l out) = SetOutput w l out"
| "exec S w (Call_Print l v) = chain (Print w l v) (\<lambda>(w', n). Inr w')"
| "exec S w (Call_Printf l f v) = chain (Printf S w l f v) (\<lambda>(w', n). Inr w')"
| "exec S w (Call_Write l p) = chain (Write w l p) (\<lambda>(w', r). Inr w')"
| "exec S w (Call_Spam v) = Spam w v"
| "exec S w (Call_Debug v) = Debug w v"
| "exec S w (Call_Verbose v) = Verbose w v"
| "exec S w (Call_Info v) = Info w v"
| "exec S w (Call_Warn v) = Warn w v"
| "exec S w (Call_Error v) = Error w v"
| "exec S w (Call_Fatal v) = Fatal w v"
| "exec S w (Call_Spamf f v) = Spamf S w f v"
| "exec S w (Call_Debugf f v) = Debugf S w f v"
| "exec S w (Call_Verbosef f v) = Verbosef S w f v"
| "exec S w (Call_Infof f v) = Infof S w f v"
| "exec S w (Call_Warnf f v) = Warnf S w f v"
| "exec S w (Call_Errorf f v) = Errorf S w f v"
| "exec S w (Call_Fatalf f v) = Fatalf S w f v"

fun run :: "(string \<Rightarrow> arg list \<Rightarrow> string) \<Rightarrow> world \<Rightarrow> call list \<Rightarrow> panic + world" where
  "run S w [] = Inr w"
| "run S w (c # cs) = chain (exec S w c) (\<lambda>w'. run S w' cs)"

text \<open>A world is reachable when a program, started after the initialisation, ends in it.\<close>

definition reaches :: "(string \<Rightarrow> arg list \<Rightarrow> string) \<Rightarrow> call list \<Rightarrow> world \<Rightarrow> bool" where
  "reaches S cs w = (chain package_init (\<lambda>w0. run S w0 cs) = Inr w)"

section \<open>The wire format, as specified\<close>

text \<open>
  A header segment is the escape introducer, the name of the field, one space, the value
  and the terminator (escape, backslash). The header is the three segments for level,
  tags and mode, one after the other; a line is the header, the content, the reset
  sequence and a newline.
\<close>

definition klio_segment :: "string \<Rightarrow> string \<Rightarrow> string" where
  "klio_segment name val = ESC # name @ '' '' @ val @ [ESC, backslash]"

definition json_tags :: "string list \<Rightarrow> string" where
  "json_tags ts = CHR ''['' # arrayElems ts @ '']''"

definition klio_header :: "Level \<Rightarrow> string list \<Rightarrow> Mode \<Rightarrow> string" where
  "klio_header L T M =
     klio_segment ''_klio_log_level'' (appendString L)
       @ klio_segment ''_klio_tags'' (json_tags T)
       @ klio_segment ''_klio_mode'' (appendString M)"

definition klio_reset :: string where
  "klio_reset = ESC # ''_klio_reset'' @ [ESC, backslash]"

definition klio_line :: "Level \<Rightarrow> string list \<Rightarrow> Mode \<Rightarrow> string \<Rightarrow> string" where
  "klio_line L T M content = klio_header L T M @ content @ klio_reset @ [newline]"

text \<open>The tag sequence of a logger: a nil slice holds no tag.\<close>

definition tag_list :: "logger \<Rightarrow> string list" where
  "tag_list x = (case tags x of None \<Rightarrow> [] | Some ts \<Rightarrow> ts)"

definition coherent :: "world \<Rightarrow> bool" where
  "coherent w =
     list_all (\<lambda>x. linePrefix x = klio_header (level x) (tag_list x) (mode x)) (heap w)"

text \<open>
  The lines of a buffer: it is cut after every newline, and what follows the last
  newline is a line when it is not empty.
\<close>

fun lines_from :: "string \<Rightarrow> string \<Rightarrow> string list" where
  "lines_from cur [] = (if cur = [] then [] else [cur])"
| "lines_from cur (c # cs) =
     (if c = newline then cur # lines_from [] cs else lines_from (cur @ [c]) cs)"

definition lines_of :: "string \<Rightarrow> string list" where
  "lines_of p = lines_from [] p"

definition fits :: "string \<Rightarrow> bool" where
  "fits ln = (length ln < MaxScanTokenSize)"

text \<open>
  The outcome of a level-named function, for the standard logger \<open>std\<close> writing to \<open>out\<close>:
  the call returns, exactly one line at the level \<open>lv\<close> with the tags and the mode of
  \<open>std\<close> has been written to \<open>out\<close>, and every logger there was is as it was.
\<close>

definition levelled ::
  "world \<Rightarrow> writer \<Rightarrow> logger \<Rightarrow> Level \<Rightarrow> string \<Rightarrow> panic + world \<Rightarrow> bool" where
  "levelled w out std lv content r =
     (case r of
        Inl p \<Rightarrow> False
      | Inr w' \<Rightarrow>
          written w' = written w @ [(out, klio_line lv (tag_list std) (mode std) content)]
          \<and> deref w' standardLogger = Some std
          \<and> take (length (heap w)) (heap w') = heap w)"

text \<open>
  The outcome of a derivation from the logger \<open>l\<close>: the call returns a reference other
  than \<open>l\<close>, every logger there was is as it was (so the accessors of \<open>l\<close> answer as
  before), and nothing has been written.
\<close>

definition derives_fresh :: "world \<Rightarrow> ref \<Rightarrow> panic + world \<times> ref \<Rightarrow> bool" where
  "derives_fresh w l r =
     (case r of
        Inl p \<Rightarrow> False
      | Inr (w', n) \<Rightarrow>
          n \<noteq> l \<and> deref w' n \<noteq> None \<and> deref w n = None
          \<and> take (length (heap w)) (heap w') = heap w
          \<and> deref w' l = deref w l
          \<and> Level w' l = Level w l \<and> Tags w' l = Tags w l
          \<and> Mode w' l = Mode w l \<and> Output w' l = Output w l
          \<and> written w' = written w)"

section \<open>Reading a JSON string back\<close>

text \<open>
  The inverse of the string encoding, used to show that the encoding loses nothing on
  valid UTF-8: \<open>unescape\<close> reads an encoded body up to its closing quote and returns the
  bytes it stands for and the input after the quote.
\<close>

definition unhex :: "char \<Rightarrow> nat" where
  "unhex c = (if (0x61::nat) \<le> of_char c then of_char c - 0x57 else of_char c - 0x30)"

definition short_escape :: "char \<Rightarrow> char" where
  "short_escape e =
     (if e = CHR ''b'' then CHR 0x08
      else if e = CHR ''f'' then CHR 0x0C
      else if e = CHR ''n'' then CHR 0x0A
      else if e = CHR ''r'' then CHR 0x0D
      else if e = CHR ''t'' then CHR 0x09
      else e)"

definition unicode_bytes :: "char \<Rightarrow> char \<Rightarrow> char \<Rightarrow> char \<Rightarrow> string" where
  "unicode_bytes h1 h2 h3 h4 =
     (if h1 = CHR ''0'' \<and> h2 = CHR ''0'' then [char_of (unhex h3 * 16 + unhex h4)]
      else if [h1, h2, h3, h4] = ''2028'' then [CHR 0xE2, CHR 0x80, CHR 0xA8]
      else if [h1, h2, h3, h4] = ''2029'' then [CHR 0xE2, CHR 0x80, CHR 0xA9]
      else [CHR 0xEF, CHR 0xBF, CHR 0xBD])"

fun unescape :: "string \<Rightarrow> (string \<times> string) option" where
  "unescape [] = None"
| "unescape (c # cs) =
     (if c = dquote then Some ([], cs)
      else if c = backslash then
        (case cs of
           [] \<Rightarrow> None
         | e # es \<Rightarrow>
             if e = CHR ''u'' then
               (case es of
                  h1 # h2 # h3 # h4 # rest \<Rightarrow>
                    map_option (apfst ((@) (unicode_bytes h1 h2 h3 h4))) (unescape rest)
                | _ \<Rightarrow> None)
             else map_option (apfst ((#) (short_escape e))) (unescape es))
      else map_option (apfst ((#) c)) (unescape cs))"

section \<open>Properties\<close>

subsection \<open>Auxiliary facts\<close>

lemmas level_defs = FatalLevel_def ErrorLevel_def WarnLevel_def InfoLevel_def VerboseLevel_def
  DebugLevel_def SpamLevel_def DefaultLevel_def LineMode_def RawMode_def DefaultMode_def

lemma updateLinePrefix_eq:
  "updateLinePrefix x = x\<lparr>linePrefix := klio_header (level x) (tag_list x) (mode x)\<rparr>"
  by (cases "tags x")
     (simp_all add: updateLinePrefix_def Marshal_string_def Marshal_strings_def klio_header_def
        klio_segment_def json_tags_def tag_list_def)

lemma deref_alloc:
  "deref (fst (alloc w x)) r = (if r = length (heap w) then Some x else deref w r)"
  by (auto simp: deref_def alloc_def nth_append)

lemma deref_store:
  "deref (store w l y) r = (if r = l \<and> l < length (heap w) then Some y else deref w r)"
  by (auto simp: deref_def store_def)

subsection \<open>ParseLevel\<close>

lemma scan_ascii_all:
  "\<forall>c \<in> set s. of_char c < (0x80::nat) \<Longrightarrow>
   scan_ascii s h = (True, h \<or> (\<exists>c \<in> set s. (0x41::nat) \<le> of_char c \<and> of_char c \<le> (0x5A::nat)))"
  by (induction s arbitrary: h) auto

lemma ToLower_ascii:
  assumes "\<forall>c \<in> set s. of_char c < (0x80::nat)"
  shows "ToLower U s = map lowerASCII s"
proof -
  have "map lowerASCII s = s"
    if "\<not> (\<exists>c \<in> set s. (0x41::nat) \<le> of_char c \<and> of_char c \<le> (0x5A::nat))"
    using that by (induction s) (auto simp: lowerASCII_def)
  then show ?thesis
    using scan_ascii_all [OF assms, of False] by (auto simp: ToLower_def)
qed

text \<open>
  C2. Whatever the Unicode case mapping \<open>U\<close> is: when the lower-cased name is one of the
  seven level names, \<open>ParseLevel\<close> returns that level and \<open>True\<close>; otherwise it returns
  \<open>info\<close> and \<open>False\<close>. It is a total function, so no input makes it fail. On an
  all-ASCII name, lower-casing maps \<open>A..Z\<close> to \<open>a..z\<close> and leaves the other bytes.
\<close>

theorem ParseLevel_spec:
  "ParseLevel U s =
     (if ToLower U s \<in> {''fatal'', ''error'', ''warn'', ''info'', ''verbose'', ''debug'', ''spam''}
      then (ToLower U s, True) else (''info'', False))
   \<and> ((\<forall>c \<in> set s. of_char c < (0x80::nat)) \<longrightarrow> ToLower U s = map lowerASCII s)"
  by (simp add: ParseLevel_def levelsMap_def level_defs ToLower_ascii)

theorem ParseLevel_spec_witness:
  "ParseLevel id ''WaRn'' = (''warn'', True) \<and> ParseLevel id ''bogus'' = (''info'', False)
   \<and> ParseLevel id ''SPAM'' = (''spam'', True)"
proof -
  have a: "map lowerASCII ''WaRn'' = ''warn''" by code_simp
  have b: "map lowerASCII ''bogus'' = ''bogus''" by code_simp
  have c: "map lowerASCII ''SPAM'' = ''spam''" by code_simp
  show ?thesis
    using ParseLevel_spec [of id "''WaRn''"] ParseLevel_spec [of id "''bogus''"]
      ParseLevel_spec [of id "''SPAM''"] a b c
    by simp
qed

subsection \<open>Construction\<close>

lemma package_init_eq:
  "package_init = Inr \<lparr>heap =
      [\<lparr>output = Some Stdout, tags = Some [], level = ''info'',
        linePrefix = klio_header ''info'' [] [], mode = []\<rparr>,
       \<lparr>output = Some Stderr, tags = Some [], level = ''error'',
        linePrefix = klio_header ''error'' [] [], mode = []\<rparr>],
     written = []\<rparr>"
  by (simp add: package_init_def NewMutable_def alloc_def SetLevel_def deref_def store_def
      updateLinePrefix_eq tag_list_def level_defs)

text \<open>
  C6. A logger built with \<open>New\<close> has the mode \<open>line\<close>. One built with \<open>NewMutable\<close> has the
  empty mode, the zero value of the field that \<open>NewMutable\<close> does not set, and its header
  says so; the two global loggers are built with \<open>NewMutable\<close>.
\<close>

theorem NewMutable_mode_empty:
  "Mode (fst (NewMutable w out)) (snd (NewMutable w out)) = Inr []
   \<and> map_option linePrefix (deref (fst (NewMutable w out)) (snd (NewMutable w out)))
       = Some (klio_header ''info'' [] [])
   \<and> klio_header ''info'' [] [] =
       ESC # ''_klio_log_level '' @ dquote # ''info'' @ [dquote, ESC, backslash]
         @ ESC # ''_klio_tags []'' @ [ESC, backslash]
         @ ESC # ''_klio_mode '' @ [dquote, dquote, ESC, backslash]
   \<and> chain package_init (\<lambda>w0. Mode w0 StandardLogger) = Inr []
   \<and> chain package_init (\<lambda>w0. Mode w0 ErrorLogger) = Inr []
   \<and> Mode (fst (New w out)) (snd (New w out)) = Inr ''line''"
  by (simp add: package_init_eq chain_def Mode_def deref_def StandardLogger_def
      ErrorLogger_def standardLogger_def errorLogger_def NewMutable_def New_def alloc_def
      updateLinePrefix_eq tag_list_def level_defs klio_header_def klio_segment_def
      json_tags_def appendString_def escapeByte_def htmlSafeSet_def)

subsection \<open>Derivation and the header\<close>

lemma appendBody_safe:
  "\<forall>c \<in> set v. htmlSafeSet (of_char c) \<Longrightarrow> appendBody v = v"
  by (induction v) (auto simp: escapeByte_def htmlSafeSet_def)

lemma take_heap_alloc: "take (length (heap w)) (heap (fst (alloc w y))) = heap w"
  by (simp add: alloc_def)

lemma alloc_snd: "snd (alloc w y) = length (heap w)"
  by (simp add: alloc_def)

lemma alloc_written: "written (fst (alloc w y)) = written w"
  by (simp add: alloc_def)

lemma derives_fresh_alloc:
  assumes "deref w l = Some x"
  shows "derives_fresh w l (Inr (alloc w y))"
proof -
  from assms have l: "l < length (heap w)"
    by (simp add: deref_def split: if_splits)
  then show ?thesis
    by (simp add: derives_fresh_def alloc_def deref_def Level_def Tags_def Mode_def
        Output_def nth_append)
qed

text \<open>
  C3. Each of \<open>WithLevel\<close>, \<open>WithMode\<close>, \<open>WithTags\<close> and \<open>WithOutput\<close>, called on an allocated
  logger \<open>l\<close>, returns a reference to a newly allocated struct, different from \<open>l\<close>. The
  struct of \<open>l\<close> (its level, tags, mode, output and cached header) and every other
  logger are as they were, so the accessors of \<open>l\<close> answer as before; nothing is written.
\<close>

theorem derivation_frame:
  assumes "deref w l = Some x"
  shows "derives_fresh w l (WithLevel w l lv) \<and> derives_fresh w l (WithMode w l md)
       \<and> derives_fresh w l (WithTags w l tg) \<and> derives_fresh w l (WithOutput w l out)"
  using assms derives_fresh_alloc [OF assms]
  by (simp add: WithLevel_def WithMode_def WithTags_def WithOutput_def)

theorem derivation_frame_witness:
  "derives_fresh (fst (New \<lparr>heap = [], written = []\<rparr> (Some Stdout))) 0
     (WithLevel (fst (New \<lparr>heap = [], written = []\<rparr> (Some Stdout))) 0 ''warn'')
   \<and> derives_fresh (fst (New \<lparr>heap = [], written = []\<rparr> (Some Stdout))) 0
     (WithMode (fst (New \<lparr>heap = [], written = []\<rparr> (Some Stdout))) 0 ''raw'')
   \<and> derives_fresh (fst (New \<lparr>heap = [], written = []\<rparr> (Some Stdout))) 0
     (WithTags (fst (New \<lparr>heap = [], written = []\<rparr> (Some Stdout))) 0 (Some [''build'']))
   \<and> derives_fresh (fst (New \<lparr>heap = [], written = []\<rparr> (Some Stdout))) 0
     (WithOutput (fst (New \<lparr>heap = [], written = []\<rparr> (Some Stdout))) 0 (Some Stderr))"
proof -
  have "deref (fst (New \<lparr>heap = [], written = []\<rparr> (Some Stdout))) 0 \<noteq> None"
    by (simp add: New_def alloc_def deref_def)
  then obtain x where "deref (fst (New \<lparr>heap = [], written = []\<rparr> (Some Stdout))) 0 = Some x"
    by blast
  then show ?thesis
    by (rule derivation_frame)
qed

text \<open>
  C7. A logger with no tag, be its slice nil (as after \<open>WithTags\<close> called without
  arguments) or empty, has the tags segment \<open>[]\<close> in its header.
\<close>

theorem empty_tags_encode:
  assumes "deref w l = Some x" and "tg = None \<or> tg = Some []"
  shows "WithTags w l tg =
           Inr (alloc w (x\<lparr>tags := tg, linePrefix :=
                  klio_segment ''_klio_log_level'' (appendString (level x))
                    @ klio_segment ''_klio_tags'' ''[]''
                    @ klio_segment ''_klio_mode'' (appendString (mode x))\<rparr>))
       \<and> variadic [] = None
       \<and> (\<forall>y. tag_list y = [] \<longrightarrow>
            linePrefix (updateLinePrefix y) =
              klio_segment ''_klio_log_level'' (appendString (level y))
                @ klio_segment ''_klio_tags'' ''[]''
                @ klio_segment ''_klio_mode'' (appendString (mode y)))"
  using assms
  by (auto simp: WithTags_def updateLinePrefix_eq tag_list_def klio_header_def json_tags_def
      variadic_def)

theorem empty_tags_encode_witness:
  "WithTags (fst (New \<lparr>heap = [], written = []\<rparr> (Some Stdout))) 0 (variadic []) =
     Inr (alloc (fst (New \<lparr>heap = [], written = []\<rparr> (Some Stdout)))
       \<lparr>output = Some Stdout, tags = None, level = ''info'',
        linePrefix =
          klio_segment ''_klio_log_level'' (appendString ''info'')
            @ klio_segment ''_klio_tags'' ''[]''
            @ klio_segment ''_klio_mode'' (appendString ''line''),
        mode = ''line''\<rparr>)"
proof -
  have d: "deref (fst (New \<lparr>heap = [], written = []\<rparr> (Some Stdout))) 0 =
      Some \<lparr>output = Some Stdout, tags = Some [], level = ''info'',
        linePrefix = klio_header ''info'' [] ''line'', mode = ''line''\<rparr>"
    by (simp add: New_def alloc_def deref_def updateLinePrefix_eq tag_list_def level_defs)
  have v: "variadic [] = None \<or> variadic [] = Some []"
    by (simp add: variadic_def)
  show ?thesis
    using empty_tags_encode [OF d v] by (simp add: variadic_def)
qed

text \<open>
  C10. \<open>WithLevel\<close>, \<open>WithMode\<close>, \<open>SetLevel\<close> and \<open>SetMode\<close> take any string \<open>v\<close>: the field
  becomes \<open>v\<close> and the header holds the JSON string of \<open>v\<close> in the segment of the field,
  with no fallback to a default. When no byte of \<open>v\<close> needs escaping, that JSON string
  is \<open>v\<close> between double quotes.
\<close>

theorem level_mode_not_validated:
  assumes "deref w l = Some x"
  shows "WithLevel w l v =
           Inr (alloc w (x\<lparr>level := v, linePrefix := klio_header v (tag_list x) (mode x)\<rparr>))
       \<and> WithMode w l v =
           Inr (alloc w (x\<lparr>mode := v, linePrefix := klio_header (level x) (tag_list x) v\<rparr>))
       \<and> SetLevel w l v =
           Inr (store w l (x\<lparr>level := v, linePrefix := klio_header v (tag_list x) (mode x)\<rparr>))
       \<and> SetMode w l v =
           Inr (store w l (x\<lparr>mode := v, linePrefix := klio_header (level x) (tag_list x) v\<rparr>))
       \<and> klio_header v T M =
           klio_segment ''_klio_log_level'' (appendString v)
             @ klio_segment ''_klio_tags'' (json_tags T)
             @ klio_segment ''_klio_mode'' (appendString M)
       \<and> klio_header L T v =
           klio_segment ''_klio_log_level'' (appendString L)
             @ klio_segment ''_klio_tags'' (json_tags T)
             @ klio_segment ''_klio_mode'' (appendString v)
       \<and> ((\<forall>c \<in> set v. htmlSafeSet (of_char c)) \<longrightarrow> appendString v = dquote # v @ [dquote])"
  using assms
  by (simp add: WithLevel_def WithMode_def SetLevel_def SetMode_def updateLinePrefix_eq
      tag_list_def klio_header_def appendString_def appendBody_safe)

theorem level_mode_not_validated_witness:
  "WithLevel (fst (New \<lparr>heap = [], written = []\<rparr> (Some Stdout))) 0 ''bogus'' =
     Inr (alloc (fst (New \<lparr>heap = [], written = []\<rparr> (Some Stdout)))
       \<lparr>output = Some Stdout, tags = Some [], level = ''bogus'',
        linePrefix = klio_header ''bogus'' [] ''line'', mode = ''line''\<rparr>)
   \<and> klio_header ''bogus'' [] ''line'' =
       klio_segment ''_klio_log_level'' (dquote # ''bogus'' @ [dquote])
         @ klio_segment ''_klio_tags'' (json_tags [])
         @ klio_segment ''_klio_mode'' (appendString ''line'')"
proof -
  have d: "deref (fst (New \<lparr>heap = [], written = []\<rparr> (Some Stdout))) 0 =
      Some \<lparr>output = Some Stdout, tags = Some [], level = ''info'',
        linePrefix = klio_header ''info'' [] ''line'', mode = ''line''\<rparr>"
    by (simp add: New_def alloc_def deref_def updateLinePrefix_eq tag_list_def level_defs)
  have s: "\<forall>c \<in> set ''bogus''. htmlSafeSet (of_char c)"
    by (simp add: htmlSafeSet_def)
  show ?thesis
    using level_mode_not_validated [OF d, of "''bogus''" "[]" "''line''" "''info''"] s
    by (simp add: tag_list_def)
qed

subsection \<open>The cached header is the header of the fields\<close>

lemma coherent_deref:
  "coherent w \<Longrightarrow> deref w l = Some x \<Longrightarrow>
   linePrefix x = klio_header (level x) (tag_list x) (mode x)"
  by (auto simp: coherent_def deref_def list_all_length split: if_splits)

lemma coherent_alloc:
  "coherent w \<Longrightarrow> linePrefix y = klio_header (level y) (tag_list y) (mode y) \<Longrightarrow>
   coherent (fst (alloc w y))"
  by (simp add: coherent_def alloc_def)

lemma coherent_store:
  "coherent w \<Longrightarrow> linePrefix y = klio_header (level y) (tag_list y) (mode y) \<Longrightarrow>
   coherent (store w l y)"
  by (auto simp: coherent_def store_def list_all_iff dest: set_update_subset_insert [THEN subsetD])

lemma coherent_heap: "heap w' = heap w \<Longrightarrow> coherent w' = coherent w"
  by (simp add: coherent_def)

lemma updated_header:
  "linePrefix (updateLinePrefix y) =
   klio_header (level (updateLinePrefix y)) (tag_list (updateLinePrefix y))
     (mode (updateLinePrefix y))"
  by (simp add: updateLinePrefix_eq tag_list_def)

lemma Sprint_Str [simp]: "Sprint [Str t] = t"
  by (simp add: Sprint_def)

lemma Print_eq:
  "Print w l v =
     (case deref w l of
        None \<Rightarrow> Inl NilPointerDereference
      | Some x \<Rightarrow>
          (case output x of
             None \<Rightarrow> Inl NilPointerDereference
           | Some out \<Rightarrow>
               Inr (w\<lparr>written := written w @ [(out, linePrefix x @ Sprint v @ klio_reset @ [newline])]\<rparr>, l)))"
  by (simp add: Print_def klio_reset_def Let_def split: option.splits)

lemma Print_heap: "Print w l v = Inr (w', n) \<Longrightarrow> heap w' = heap w"
  by (auto simp: Print_eq split: option.splits)

lemma Write_loop_heap: "Write_loop w l p = Inr (w', e) \<Longrightarrow> heap w' = heap w"
proof (induction w l p arbitrary: w' e rule: Write_loop.induct)
  case (1 w l unread)
  show ?case
  proof (cases "Scan unread")
    case (Stop err)
    with "1.prems" show ?thesis by (simp add: Write_loop.simps)
  next
    case (Token line rest)
    show ?thesis
    proof (cases "Print w l [Str line]")
      case (Inl p)
      with Token "1.prems" show ?thesis by (simp add: Write_loop.simps)
    next
      case (Inr r)
      obtain w1 l1 where r: "r = (w1, l1)" by (cases r)
      from Token Inr r "1.prems" have "Write_loop w1 l rest = Inr (w', e)"
        by (simp add: Write_loop.simps)
      with "1.IH" [OF Token Inr r [symmetric]] have "heap w' = heap w1" .
      moreover from Inr r have "heap w1 = heap w" by (simp add: Print_heap)
      ultimately show ?thesis by simp
    qed
  qed
qed

lemma level_call_eq:
  "chain (chain (WithLevel w standardLogger lv) (\<lambda>(w', n). Print w' n v)) (\<lambda>(w', n). Inr w') =
     (case deref w standardLogger of
        None \<Rightarrow> Inl NilPointerDereference
      | Some std \<Rightarrow>
          (case output std of
             None \<Rightarrow> Inl NilPointerDereference
           | Some out \<Rightarrow>
               Inr (w\<lparr>heap := heap w @ [updateLinePrefix (std\<lparr>level := lv\<rparr>)],
                      written := written w @
                        [(out, klio_line lv (tag_list std) (mode std) (Sprint v))]\<rparr>)))"
  by (simp add: chain_def WithLevel_def alloc_def Print_eq deref_def updateLinePrefix_eq
      tag_list_def klio_line_def split: option.splits)

lemmas level_function_defs = Spam_def Debug_def Verbose_def Info_def Warn_def Error_def Fatal_def
  Spamf_def Debugf_def Verbosef_def Infof_def Warnf_def Errorf_def Fatalf_def

lemma level_call_coherent:
  assumes "coherent w"
    and "chain (chain (WithLevel w standardLogger lv) (\<lambda>(w', n). Print w' n v))
           (\<lambda>(w', n). Inr w') = Inr w'"
  shows "coherent w'"
proof -
  from assms(2) obtain std out where
    "w' = w\<lparr>heap := heap w @ [updateLinePrefix (std\<lparr>level := lv\<rparr>)],
            written := written w @ [(out, klio_line lv (tag_list std) (mode std) (Sprint v))]\<rparr>"
    by (auto simp: level_call_eq split: option.splits)
  with assms(1) show ?thesis
    using updated_header [of "std\<lparr>level := lv\<rparr>"] by (simp add: coherent_def)
qed

lemma exec_coherent:
  assumes "coherent w" and "exec S w c = Inr w'"
  shows "coherent w'"
proof (cases c)
  case (Call_New out)
  with assms show ?thesis by (auto simp: New_def intro!: coherent_alloc updated_header)
next
  case (Call_NewMutable out)
  with assms show ?thesis by (auto simp: NewMutable_def intro!: coherent_alloc updated_header)
next
  case (Call_WithLevel l lv)
  with assms show ?thesis
    by (auto simp: WithLevel_def chain_def case_prod_beta split: option.splits
        intro!: coherent_alloc updated_header)
next
  case (Call_WithMode l md)
  with assms show ?thesis
    by (auto simp: WithMode_def chain_def case_prod_beta split: option.splits
        intro!: coherent_alloc updated_header)
next
  case (Call_WithTags l tg)
  with assms show ?thesis
    by (auto simp: WithTags_def chain_def case_prod_beta split: option.splits
        intro!: coherent_alloc updated_header)
next
  case (Call_WithOutput l out)
  with assms show ?thesis
    by (auto simp: WithOutput_def chain_def case_prod_beta tag_list_def split: option.splits
        intro!: coherent_alloc dest: coherent_deref)
next
  case (Call_SetLevel l lv)
  with assms show ?thesis
    by (auto simp: SetLevel_def split: option.splits intro!: coherent_store updated_header)
next
  case (Call_SetMode l md)
  with assms show ?thesis
    by (auto simp: SetMode_def split: option.splits intro!: coherent_store updated_header)
next
  case (Call_SetTags l tg)
  with assms show ?thesis
    by (auto simp: SetTags_def split: option.splits intro!: coherent_store updated_header)
next
  case (Call_SetOutput l out)
  with assms show ?thesis
    by (auto simp: SetOutput_def tag_list_def split: option.splits
        intro!: coherent_store dest: coherent_deref)
next
  case (Call_Print l v)
  with assms show ?thesis
    by (auto simp: chain_def split: sum.splits dest!: Print_heap coherent_heap)
next
  case (Call_Printf l f v)
  with assms show ?thesis
    by (auto simp: chain_def Printf_def split: sum.splits dest!: Print_heap coherent_heap)
next
  case (Call_Write l p)
  with assms show ?thesis
    by (auto simp: chain_def Write_def split: sum.splits option.splits
        dest!: Write_loop_heap coherent_heap)
qed (use assms in \<open>auto simp: level_function_defs Printf_def elim: level_call_coherent\<close>)

lemma run_coherent: "coherent w \<Longrightarrow> run S w cs = Inr w' \<Longrightarrow> coherent w'"
proof (induction cs arbitrary: w)
  case Nil
  then show ?case by simp
next
  case (Cons c cs)
  then show ?case
    by (cases "exec S w c") (auto simp: chain_def dest: exec_coherent)
qed

lemma reaches_coherent: "reaches S cs w \<Longrightarrow> coherent w"
proof -
  assume r: "reaches S cs w"
  have "coherent \<lparr>heap =
      [\<lparr>output = Some Stdout, tags = Some [], level = ''info'',
        linePrefix = klio_header ''info'' [] [], mode = []\<rparr>,
       \<lparr>output = Some Stderr, tags = Some [], level = ''error'',
        linePrefix = klio_header ''error'' [] [], mode = []\<rparr>],
     written = []\<rparr>"
    by (simp add: coherent_def tag_list_def)
  with r show ?thesis
    by (auto simp: reaches_def package_init_eq chain_def dest: run_coherent)
qed

end
